theory Spec2Isabelle
  imports Main "HOL-Library.Word"
begin

unbundle bit_operations_syntax

section \<open>Machine model\<close>

text \<open>
  The allocator of \<^verbatim>\<open>mm.c\<close> works on raw bytes of a 64-bit little-endian machine
  (\<^verbatim>\<open>sizeof(char*)\<close> is 8, \<^verbatim>\<open>unsigned int\<close> and \<^verbatim>\<open>int\<close> have 32 bits, \<^verbatim>\<open>size_t\<close> has 64).
  Memory is a function from addresses to bytes; an address is a natural number below
  \<open>2 ^ 64\<close>; pointer arithmetic wraps at \<open>2 ^ 64\<close>. A dereference outside the region
  owned by the memory library is the error \<open>SegFault\<close>; a list walk that does not end
  within its fuel is the error \<open>OutOfFuel\<close>.
\<close>

datatype error = SegFault | OutOfFuel

definition bindE :: "error + 'a \<Rightarrow> ('a \<Rightarrow> error + 'b) \<Rightarrow> error + 'b" where
  "bindE m f = (case m of Inl e \<Rightarrow> Inl e | Inr x \<Rightarrow> f x)"

lemma bindE_Inr [simp]: "bindE (Inr x) f = f x"
  by (simp add: bindE_def)

lemma bindE_Inl [simp]: "bindE (Inl e) f = Inl e"
  by (simp add: bindE_def)

lemma bindE_cong [fundef_cong]:
  "m = m' \<Longrightarrow> (\<And>x. m' = Inr x \<Longrightarrow> f x = f' x) \<Longrightarrow> bindE m f = bindE m' f'"
  by (cases m') (simp_all add: bindE_def)

lemma bindE_weak_cong [cong]: "m = m' \<Longrightarrow> bindE m f = bindE m' f"
  by simp

lemma bindE_eq_Inr:
  "bindE m f = Inr y \<longleftrightarrow> (\<exists>x. m = Inr x \<and> f x = Inr y)"
  by (cases m) simp_all

record mm_state =
  mem :: "nat \<Rightarrow> 8 word"          \<comment> \<open>the bytes of memory\<close>
  mem_start_brk :: nat             \<comment> \<open>memlib: first byte of the heap region\<close>
  mem_brk :: nat                   \<comment> \<open>memlib: one past the last byte handed out\<close>
  mem_max_addr :: nat              \<comment> \<open>memlib: one past the last byte of the region\<close>
  heap_listp :: nat                \<comment> \<open>\<^verbatim>\<open>static char** heap_listp\<close>\<close>
  prevPtr :: nat                   \<comment> \<open>\<^verbatim>\<open>static char* prevPtr\<close>\<close>

abbreviation (input) NULL :: nat where "NULL \<equiv> 0"

text \<open>\<^verbatim>\<open>(void * )-1\<close>, the failure value of \<^verbatim>\<open>mem_sbrk\<close>.\<close>

abbreviation (input) FAILED :: nat where "FAILED \<equiv> 18446744073709551615"

abbreviation (input) WSIZE :: nat where "WSIZE \<equiv> 4"

abbreviation (input) DSIZE :: nat where "DSIZE \<equiv> 8"

definition ptr_add :: "nat \<Rightarrow> nat \<Rightarrow> nat" where
  "ptr_add p n = (p + n) mod 18446744073709551616"

definition ptr_sub :: "nat \<Rightarrow> nat \<Rightarrow> nat" where
  "ptr_sub p n = (p + (18446744073709551616 - n mod 18446744073709551616)) mod 18446744073709551616"

text \<open>\<^verbatim>\<open>char* + int\<close>: the offset is signed.\<close>

definition ptr_add_int :: "nat \<Rightarrow> 32 word \<Rightarrow> nat" where
  "ptr_add_int p i = (if 0 \<le> sint i then ptr_add p (nat (sint i)) else ptr_sub p (nat (- sint i)))"

definition valid :: "mm_state \<Rightarrow> nat \<Rightarrow> nat \<Rightarrow> bool" where
  "valid s a n \<longleftrightarrow> mem_start_brk s \<le> a \<and> a + n \<le> mem_max_addr s"

definition load32 :: "(nat \<Rightarrow> 8 word) \<Rightarrow> nat \<Rightarrow> 32 word" where
  "load32 m a =
     ucast (m a) OR push_bit 8 (ucast (m (a + 1))) OR
     push_bit 16 (ucast (m (a + 2))) OR push_bit 24 (ucast (m (a + 3)))"

definition store32 :: "(nat \<Rightarrow> 8 word) \<Rightarrow> nat \<Rightarrow> 32 word \<Rightarrow> (nat \<Rightarrow> 8 word)" where
  "store32 m a v =
     m(a := ucast v, a + 1 := ucast (drop_bit 8 v),
       a + 2 := ucast (drop_bit 16 v), a + 3 := ucast (drop_bit 24 v))"

definition load64 :: "(nat \<Rightarrow> 8 word) \<Rightarrow> nat \<Rightarrow> 64 word" where
  "load64 m a = ucast (load32 m a) OR push_bit 32 (ucast (load32 m (a + 4)))"

definition store64 :: "(nat \<Rightarrow> 8 word) \<Rightarrow> nat \<Rightarrow> 64 word \<Rightarrow> (nat \<Rightarrow> 8 word)" where
  "store64 m a v = store32 (store32 m a (ucast v)) (a + 4) (ucast (drop_bit 32 v))"

text \<open>\<^verbatim>\<open>*(unsigned int* )p\<close> and \<^verbatim>\<open>*p = val\<close>.\<close>

definition GET :: "mm_state \<Rightarrow> nat \<Rightarrow> error + 32 word" where
  "GET s p = (if valid s p 4 then Inr (load32 (mem s) p) else Inl SegFault)"

definition PUT :: "nat \<Rightarrow> 32 word \<Rightarrow> mm_state \<Rightarrow> error + mm_state" where
  "PUT p val s = (if valid s p 4 then Inr (s\<lparr>mem := store32 (mem s) p val\<rparr>) else Inl SegFault)"

text \<open>\<^verbatim>\<open>*(char** )p\<close> and \<^verbatim>\<open>*(char** )p = q\<close>.\<close>

definition load_ptr :: "mm_state \<Rightarrow> nat \<Rightarrow> error + nat" where
  "load_ptr s p = (if valid s p 8 then Inr (unat (load64 (mem s) p)) else Inl SegFault)"

definition store_ptr :: "nat \<Rightarrow> nat \<Rightarrow> mm_state \<Rightarrow> error + mm_state" where
  "store_ptr p q s =
     (if valid s p 8 then Inr (s\<lparr>mem := store64 (mem s) p (word_of_nat q)\<rparr>) else Inl SegFault)"

text \<open>
  \<^verbatim>\<open>memcpy\<close> and \<^verbatim>\<open>memset\<close>. A call of length 0 touches no byte. The source and the
  destination of the one \<^verbatim>\<open>memcpy\<close> of the program are blocks of their own, so the copy
  reads the memory as it is before the call.
\<close>

definition copy_bytes :: "(nat \<Rightarrow> 8 word) \<Rightarrow> nat \<Rightarrow> nat \<Rightarrow> nat \<Rightarrow> (nat \<Rightarrow> 8 word)" where
  "copy_bytes m dst src n = (\<lambda>a. if dst \<le> a \<and> a < dst + n then m (src + (a - dst)) else m a)"

definition fill_bytes :: "(nat \<Rightarrow> 8 word) \<Rightarrow> nat \<Rightarrow> 8 word \<Rightarrow> nat \<Rightarrow> (nat \<Rightarrow> 8 word)" where
  "fill_bytes m p c n = (\<lambda>a. if p \<le> a \<and> a < p + n then c else m a)"

definition memcpy :: "nat \<Rightarrow> nat \<Rightarrow> nat \<Rightarrow> mm_state \<Rightarrow> error + mm_state" where
  "memcpy dst src n s =
     (if n = 0 then Inr s
      else if valid s dst n \<and> valid s src n
      then Inr (s\<lparr>mem := copy_bytes (mem s) dst src n\<rparr>)
      else Inl SegFault)"

definition memset :: "nat \<Rightarrow> 8 word \<Rightarrow> nat \<Rightarrow> mm_state \<Rightarrow> error + mm_state" where
  "memset p c n s =
     (if n = 0 then Inr s
      else if valid s p n
      then Inr (s\<lparr>mem := fill_bytes (mem s) p c n\<rparr>)
      else Inl SegFault)"

text \<open>
  Modelled from the spec: the heap-growth primitive \<^verbatim>\<open>mem_sbrk\<close> of \<^verbatim>\<open>memlib.h\<close>, which is
  not part of the sources. The spec gives \<^verbatim>\<open>grow(bytes) -> Result<RegionStart, Failure>\<close>;
  \<^verbatim>\<open>mm.c\<close> passes an \<^verbatim>\<open>int\<close> and tests the result against \<^verbatim>\<open>(void * )-1\<close>. Growth fails
  when the increment is negative or the region is exhausted, and otherwise returns the
  old break and moves the break up.
\<close>

definition mem_sbrk :: "32 word \<Rightarrow> mm_state \<Rightarrow> nat \<times> mm_state" where
  "mem_sbrk incr s =
     (if sint incr < 0 \<or> mem_max_addr s < mem_brk s + nat (sint incr) then (FAILED, s)
      else (mem_brk s, s\<lparr>mem_brk := mem_brk s + nat (sint incr)\<rparr>))"

section \<open>Block codec\<close>

definition PACK :: "32 word \<Rightarrow> 32 word \<Rightarrow> 32 word" where
  "PACK sz alloc = sz OR alloc"

definition GET_SIZE :: "mm_state \<Rightarrow> nat \<Rightarrow> error + 32 word" where
  "GET_SIZE s p = bindE (GET s p) (\<lambda>v. Inr (v AND 0x7ffffffe))"

definition GET_ALLOC :: "mm_state \<Rightarrow> nat \<Rightarrow> error + 32 word" where
  "GET_ALLOC s p = bindE (GET s p) (\<lambda>v. Inr (v AND 0x1))"

definition FOOTER :: "mm_state \<Rightarrow> nat \<Rightarrow> error + nat" where
  "FOOTER s p = bindE (GET_SIZE s p) (\<lambda>sz. Inr (ptr_sub (ptr_add p (unat sz)) WSIZE))"

definition NEXT_FREE :: "mm_state \<Rightarrow> nat \<Rightarrow> error + nat" where
  "NEXT_FREE s p = load_ptr s (ptr_add p WSIZE)"

text \<open>\<^verbatim>\<open>heap_listp + index\<close>: the address of a bucket head (\<^verbatim>\<open>char**\<close> arithmetic).\<close>

definition bucket :: "mm_state \<Rightarrow> nat \<Rightarrow> nat" where
  "bucket s index = ptr_add (heap_listp s) (8 * index)"

section \<open>Initialisation and growth\<close>

definition mm_init :: "mm_state \<Rightarrow> error + (int \<times> mm_state)" where
  "mm_init s =
     (case mem_sbrk 80 s of (p, s') \<Rightarrow>
        if p = FAILED then Inr (- 1, s'\<lparr>heap_listp := p\<rparr>)
        else
          bindE (store_ptr (bucket (s'\<lparr>heap_listp := p\<rparr>) 0) NULL (s'\<lparr>heap_listp := p\<rparr>)) (\<lambda>s0.
          bindE (store_ptr (bucket s0 1) NULL s0) (\<lambda>s1.
          bindE (store_ptr (bucket s1 2) NULL s1) (\<lambda>s2.
          bindE (store_ptr (bucket s2 3) NULL s2) (\<lambda>s3.
          bindE (store_ptr (bucket s3 4) NULL s3) (\<lambda>s4.
          bindE (store_ptr (bucket s4 5) NULL s4) (\<lambda>s5.
          bindE (store_ptr (bucket s5 6) NULL s5) (\<lambda>s6.
          bindE (store_ptr (bucket s6 7) NULL s6) (\<lambda>s7.
          bindE (store_ptr (bucket s7 8) NULL s7) (\<lambda>s8.
          bindE (PUT (bucket s8 9) (PACK 0 1) s8) (\<lambda>s9.
          bindE (PUT (ptr_add (bucket s9 9) WSIZE) (PACK 0 1) s9) (\<lambda>s10.
          Inr (0, s10)))))))))))))"

definition extend_heap :: "32 word \<Rightarrow> mm_state \<Rightarrow> error + (nat \<times> mm_state)" where
  "extend_heap sz s =
     (case mem_sbrk sz s of (bp, s0) \<Rightarrow>
        if bp = FAILED then Inr (bp, s0)
        else
          bindE (PUT (ptr_sub bp WSIZE) (PACK sz 1) s0) (\<lambda>s1.
          bindE (PUT (ptr_sub (ptr_add_int bp sz) DSIZE) (PACK sz 1) s1) (\<lambda>s2.
          bindE (PUT (ptr_sub (ptr_add_int bp sz) WSIZE) (PACK 0 1) s2) (\<lambda>s3.
          Inr (bp, s3)))))"

section \<open>Size-class index\<close>

definition getIndex :: "64 word \<Rightarrow> nat" where
  "getIndex asize =
     (if asize \<le> 32 then 0
      else if asize \<le> 64 then 1
      else if asize \<le> 128 then 2
      else if asize \<le> 256 then 3
      else if asize \<le> 512 then 4
      else if asize \<le> 1024 then 5
      else if asize \<le> 2048 then 6
      else if asize \<le> 4096 then 7
      else 8)"

section \<open>Free-list search\<close>

text \<open>
  The first loop of \<^verbatim>\<open>first_fit\<close>: walk the list of the natural bucket. \<open>Some p\<close> is the
  \<^verbatim>\<open>return ptr\<close> inside the loop, \<open>None\<close> is leaving the loop at \<^verbatim>\<open>ptr == NULL\<close>.
\<close>

fun first_fit_scan :: "nat \<Rightarrow> 32 word \<Rightarrow> nat \<Rightarrow> mm_state \<Rightarrow> error + (nat option \<times> mm_state)" where
  "first_fit_scan 0 asize ptr s = Inl OutOfFuel"
| "first_fit_scan (Suc fuel) asize ptr s =
     (if ptr \<noteq> NULL then
        bindE (GET_SIZE s ptr) (\<lambda>sz.
          if asize \<le> sz then Inr (Some ptr, s)
          else bindE (NEXT_FREE s ptr) (\<lambda>nxt. first_fit_scan fuel asize nxt (s\<lparr>prevPtr := ptr\<rparr>)))
      else Inr (None, s))"

text \<open>The second loop of \<^verbatim>\<open>first_fit\<close>: the head of the next bucket that is not empty.\<close>

function first_fit_up :: "nat \<Rightarrow> mm_state \<Rightarrow> error + (nat \<times> mm_state)" where
  "first_fit_up index s =
     (if index \<le> 8 then
        bindE (load_ptr s (bucket s index)) (\<lambda>ptr.
          if ptr = NULL then first_fit_up (index + 1) s
          else Inr (ptr, s\<lparr>prevPtr := NULL\<rparr>))
      else Inr (NULL, s))"
  by pat_completeness auto
termination
  by (relation "measure (\<lambda>(index, s). 9 - index)") auto

declare first_fit_up.simps [simp del]

definition first_fit :: "nat \<Rightarrow> 32 word \<Rightarrow> nat \<Rightarrow> mm_state \<Rightarrow> error + (nat \<times> mm_state)" where
  "first_fit fuel asize index s =
     bindE (load_ptr (s\<lparr>prevPtr := NULL\<rparr>) (bucket (s\<lparr>prevPtr := NULL\<rparr>) index)) (\<lambda>ptr.
     bindE (first_fit_scan fuel asize ptr (s\<lparr>prevPtr := NULL\<rparr>)) (\<lambda>(r, s1).
       case r of Some p \<Rightarrow> Inr (p, s1) | None \<Rightarrow> first_fit_up (index + 1) s1))"

section \<open>Unlinking\<close>

definition relink :: "nat \<Rightarrow> nat \<Rightarrow> mm_state \<Rightarrow> error + mm_state" where
  "relink bp prev s =
     bindE (GET_SIZE s bp) (\<lambda>sz.
     bindE (NEXT_FREE s bp) (\<lambda>nxt.
       if prev = NULL then store_ptr (bucket s (getIndex (ucast sz))) nxt s
       else store_ptr (ptr_add prev WSIZE) nxt s))"

fun find_prev_scan :: "nat \<Rightarrow> nat \<Rightarrow> nat \<Rightarrow> mm_state \<Rightarrow> error + mm_state" where
  "find_prev_scan 0 p ptr s = Inl OutOfFuel"
| "find_prev_scan (Suc fuel) p ptr s =
     (if ptr \<noteq> p then
        bindE (NEXT_FREE s ptr) (\<lambda>nxt. find_prev_scan fuel p nxt (s\<lparr>prevPtr := ptr\<rparr>))
      else Inr s)"

definition find_prev :: "nat \<Rightarrow> nat \<Rightarrow> mm_state \<Rightarrow> error + (nat \<times> mm_state)" where
  "find_prev fuel p s =
     bindE (GET_SIZE s p) (\<lambda>sz.
     bindE (load_ptr (s\<lparr>prevPtr := NULL\<rparr>) (bucket (s\<lparr>prevPtr := NULL\<rparr>) (getIndex (ucast sz)))) (\<lambda>ptr.
     bindE (find_prev_scan fuel p ptr (s\<lparr>prevPtr := NULL\<rparr>)) (\<lambda>s1.
       Inr (prevPtr s1, s1))))"

section \<open>Coalescing and deallocation\<close>

definition coalesce :: "nat \<Rightarrow> nat \<Rightarrow> mm_state \<Rightarrow> error + mm_state" where
  "coalesce fuel bp s =
     bindE (GET_ALLOC s (ptr_sub bp WSIZE)) (\<lambda>leftAlloc.
     bindE (GET_SIZE s bp) (\<lambda>bsz.
     bindE (GET_ALLOC s (ptr_add bp (unat bsz))) (\<lambda>rightAlloc.
       if leftAlloc = 1 \<and> rightAlloc = 1 then Inr s
       else if leftAlloc = 0 \<and> rightAlloc = 1 then
         bindE (GET_SIZE s (ptr_sub bp WSIZE)) (\<lambda>lsz.
         bindE (relink bp NULL s) (\<lambda>s1.
         bindE (find_prev fuel (ptr_sub bp (unat lsz)) s1) (\<lambda>(prev, s2).
         bindE (relink (ptr_sub bp (unat lsz)) prev s2) (\<lambda>s3.
         bindE (GET_SIZE s3 (ptr_sub bp (unat lsz))) (\<lambda>sz1.
         bindE (GET_SIZE s3 bp) (\<lambda>sz2.
         bindE (PUT (ptr_sub bp (unat lsz)) (PACK (sz1 + sz2) 0) s3) (\<lambda>s4.
         bindE (FOOTER s4 (ptr_sub bp (unat lsz))) (\<lambda>ft.
         bindE (PUT ft (PACK (sz1 + sz2) 0) s4) (\<lambda>s5.
         bindE (GET_SIZE s5 (ptr_sub bp (unat lsz))) (\<lambda>nsz.
         bindE (load_ptr s5 (bucket s5 (getIndex (ucast nsz)))) (\<lambda>nextFreeBlock.
         bindE (store_ptr (bucket s5 (getIndex (ucast nsz))) (ptr_sub bp (unat lsz)) s5) (\<lambda>s6.
         store_ptr (ptr_add (ptr_sub bp (unat lsz)) WSIZE) nextFreeBlock s6))))))))))))
       else if leftAlloc = 1 \<and> rightAlloc = 0 then
         bindE (relink bp NULL s) (\<lambda>s1.
         bindE (find_prev fuel (ptr_add bp (unat bsz)) s1) (\<lambda>(prev, s2).
         bindE (relink (ptr_add bp (unat bsz)) prev s2) (\<lambda>s3.
         bindE (GET_SIZE s3 (ptr_add bp (unat bsz))) (\<lambda>sz1.
         bindE (GET_SIZE s3 bp) (\<lambda>sz2.
         bindE (PUT bp (PACK (sz1 + sz2) 0) s3) (\<lambda>s4.
         bindE (FOOTER s4 bp) (\<lambda>ft.
         bindE (PUT ft (PACK (sz1 + sz2) 0) s4) (\<lambda>s5.
         bindE (GET_SIZE s5 bp) (\<lambda>nsz.
         bindE (load_ptr s5 (bucket s5 (getIndex (ucast nsz)))) (\<lambda>nextFreeBlock.
         bindE (store_ptr (bucket s5 (getIndex (ucast nsz))) bp s5) (\<lambda>s6.
         store_ptr (ptr_add bp WSIZE) nextFreeBlock s6)))))))))))
       else
         bindE (GET_SIZE s (ptr_sub bp WSIZE)) (\<lambda>lsz.
         bindE (relink bp NULL s) (\<lambda>s1.
         bindE (find_prev fuel (ptr_add bp (unat bsz)) s1) (\<lambda>(prevr, s2).
         bindE (relink (ptr_add bp (unat bsz)) prevr s2) (\<lambda>s3.
         bindE (find_prev fuel (ptr_sub bp (unat lsz)) s3) (\<lambda>(prevl, s4).
         bindE (relink (ptr_sub bp (unat lsz)) prevl s4) (\<lambda>s5.
         bindE (GET_SIZE s5 (ptr_add bp (unat bsz))) (\<lambda>sz1.
         bindE (GET_SIZE s5 bp) (\<lambda>sz2.
         bindE (GET_SIZE s5 (ptr_sub bp (unat lsz))) (\<lambda>sz3.
         bindE (PUT (ptr_sub bp (unat lsz)) (PACK (sz1 + sz2 + sz3) 0) s5) (\<lambda>s6.
         bindE (FOOTER s6 (ptr_sub bp (unat lsz))) (\<lambda>ft.
         bindE (PUT ft (PACK (sz1 + sz2 + sz3) 0) s6) (\<lambda>s7.
         bindE (GET_SIZE s7 (ptr_sub bp (unat lsz))) (\<lambda>nsz.
         bindE (load_ptr s7 (bucket s7 (getIndex (ucast nsz)))) (\<lambda>nextFreeBlock.
         bindE (store_ptr (bucket s7 (getIndex (ucast nsz))) (ptr_sub bp (unat lsz)) s7) (\<lambda>s8.
         store_ptr (ptr_add (ptr_sub bp (unat lsz)) WSIZE) nextFreeBlock s8))))))))))))))))))"

text \<open>
  \<^verbatim>\<open>free\<close>. The local \<^verbatim>\<open>int size\<close> holds a value below \<open>2 ^ 31\<close> (the mask of
  \<^verbatim>\<open>GET_SIZE\<close>), so its conversion to \<^verbatim>\<open>size_t\<close> for \<^verbatim>\<open>getIndex\<close> is the signed one.
\<close>

definition free :: "nat \<Rightarrow> nat \<Rightarrow> mm_state \<Rightarrow> error + mm_state" where
  "free fuel ptr s =
     (if ptr = NULL then Inr s
      else
        bindE (GET_SIZE s (ptr_sub ptr WSIZE)) (\<lambda>sz0.
        bindE (PUT (ptr_sub ptr WSIZE) (PACK sz0 0) s) (\<lambda>s1.
        bindE (FOOTER s1 (ptr_sub ptr WSIZE)) (\<lambda>ft.
        bindE (GET_SIZE s1 (ptr_sub ptr WSIZE)) (\<lambda>sz1.
        bindE (PUT ft (PACK sz1 0) s1) (\<lambda>s2.
        bindE (GET_SIZE s2 (ptr_sub ptr WSIZE)) (\<lambda>sz.
        bindE (load_ptr s2 (bucket s2 (getIndex (scast sz)))) (\<lambda>nextFreeBlock.
        bindE (store_ptr (ptr_add (ptr_sub ptr WSIZE) WSIZE) nextFreeBlock s2) (\<lambda>s3.
        bindE (store_ptr (bucket s3 (getIndex (scast sz))) (ptr_sub ptr WSIZE) s3) (\<lambda>s4.
        coalesce fuel (ptr_sub ptr WSIZE) s4))))))))))"

section \<open>Placement and allocation\<close>

definition place :: "nat \<Rightarrow> 32 word \<Rightarrow> nat \<Rightarrow> nat \<Rightarrow> mm_state \<Rightarrow> error + (nat \<times> mm_state)" where
  "place fuel asize bp prev s =
     bindE (GET_SIZE s bp) (\<lambda>csize.
       if 16 < sint (csize - asize) then
         bindE (relink bp prev s) (\<lambda>s1.
         bindE (PUT bp (PACK asize 1) s1) (\<lambda>s2.
         bindE (FOOTER s2 bp) (\<lambda>ft.
         bindE (PUT ft (PACK asize 1) s2) (\<lambda>s3.
         bindE (PUT (ptr_add bp (unat asize)) (PACK (csize - asize) 0) s3) (\<lambda>s4.
         bindE (FOOTER s4 (ptr_add bp (unat asize))) (\<lambda>nft.
         bindE (PUT nft (PACK (csize - asize) 0) s4) (\<lambda>s5.
         bindE (free fuel (ptr_add (ptr_add bp (unat asize)) WSIZE) s5) (\<lambda>s6.
         Inr (ptr_add bp WSIZE, s6)))))))))
       else
         bindE (PUT bp (PACK csize 1) s) (\<lambda>s1.
         bindE (FOOTER s1 bp) (\<lambda>ft.
         bindE (PUT ft (PACK csize 1) s1) (\<lambda>s2.
         bindE (relink bp prev s2) (\<lambda>s3.
         Inr (ptr_add bp WSIZE, s3))))))"

text \<open>
  \<^verbatim>\<open>malloc\<close>. The required size \<^verbatim>\<open>asize\<close> is a \<^verbatim>\<open>size_t\<close>; \<^verbatim>\<open>first_fit\<close> and \<^verbatim>\<open>place\<close> take
  it as \<^verbatim>\<open>unsigned int\<close> and \<^verbatim>\<open>extend_heap\<close> as \<^verbatim>\<open>int\<close>: both conversions keep the low
  32 bits.
\<close>

definition required_size :: "64 word \<Rightarrow> 64 word" where
  "required_size sz = (if (sz + 8) mod 8 = 0 then sz + 8 else ((sz + 8) div 8 + 1) * 8)"

definition malloc :: "nat \<Rightarrow> 64 word \<Rightarrow> mm_state \<Rightarrow> error + (nat \<times> mm_state)" where
  "malloc fuel sz s =
     (if sz = 0 then Inr (NULL, s)
      else
        bindE (first_fit fuel (ucast (required_size sz)) (getIndex (required_size sz)) s) (\<lambda>(bp, s1).
          if bp = NULL then extend_heap (ucast (required_size sz)) s1
          else place fuel (ucast (required_size sz)) bp (prevPtr s1) s1))"

section \<open>Resizing and zeroed allocation\<close>

definition realloc :: "nat \<Rightarrow> nat \<Rightarrow> 64 word \<Rightarrow> mm_state \<Rightarrow> error + (nat \<times> mm_state)" where
  "realloc fuel oldptr sz s =
     (if oldptr = NULL then malloc fuel sz s
      else if sz = 0 then bindE (free fuel oldptr s) (\<lambda>s1. Inr (NULL, s1))
      else
        bindE (malloc fuel sz s) (\<lambda>(bp, s1).
          if bp = NULL then Inr (NULL, s1)
          else
            bindE (GET_SIZE s1 (ptr_sub oldptr WSIZE)) (\<lambda>oldsize.
            bindE (memcpy bp oldptr (unat (if sz < ucast oldsize then ucast sz else oldsize)) s1) (\<lambda>s2.
            bindE (free fuel oldptr s2) (\<lambda>s3.
            Inr (bp, s3))))))"

definition calloc :: "nat \<Rightarrow> 64 word \<Rightarrow> 64 word \<Rightarrow> mm_state \<Rightarrow> error + (nat \<times> mm_state)" where
  "calloc fuel nmemb sz s =
     bindE (malloc fuel (nmemb * sz) s) (\<lambda>(newptr, s1).
     bindE (memset newptr 0 (unat (nmemb * sz)) s1) (\<lambda>s2.
     Inr (newptr, s2)))"

section \<open>Observers\<close>

text \<open>
  Modelled from the spec: \<^verbatim>\<open>mem_init\<close> of \<^verbatim>\<open>memlib\<close>, which is not part of the sources. It
  reserves the region \<open>[lo, hi)\<close> with contents \<open>m\<close> and sets the break to its start.
\<close>

definition mem_init :: "(nat \<Rightarrow> 8 word) \<Rightarrow> nat \<Rightarrow> nat \<Rightarrow> mm_state" where
  "mem_init m lo hi =
     \<lparr>mem = m, mem_start_brk = lo, mem_brk = lo, mem_max_addr = hi, heap_listp = NULL, prevPtr = NULL\<rparr>"

text \<open>
  The scan of the arena that the no-adjacent-free property speaks of: from the first block
  after the prologue, block by block, to the epilogue (the first header of size 0).
  \<open>Inr True\<close> says that two neighbouring blocks are both free.
\<close>

fun adjacent_free_scan :: "nat \<Rightarrow> mm_state \<Rightarrow> nat \<Rightarrow> bool \<Rightarrow> error + bool" where
  "adjacent_free_scan 0 s p prev_free = Inl OutOfFuel"
| "adjacent_free_scan (Suc fuel) s p prev_free =
     bindE (GET_SIZE s p) (\<lambda>sz.
     bindE (GET_ALLOC s p) (\<lambda>alloc.
       if sz = 0 then Inr False
       else if prev_free \<and> alloc = 0 then Inr True
       else adjacent_free_scan fuel s (ptr_add p (unat sz)) (alloc = 0)))"

definition adjacent_free :: "nat \<Rightarrow> mm_state \<Rightarrow> error + bool" where
  "adjacent_free fuel s = adjacent_free_scan fuel s (ptr_add (bucket s 9) WSIZE) False"

section \<open>Memory lemmas and evaluation rules\<close>

lemma load32_store32_same: "load32 (store32 m a v) a = v"
  unfolding load32_def store32_def
  apply simp
  apply (rule bit_word_eqI)
  apply (auto simp add: bit_simps)
  subgoal for n by (cases "n < 24") (auto simp: not_less)
  done

lemma load32_store32_disj:
  "a + 4 \<le> b \<or> b + 4 \<le> a \<Longrightarrow> load32 (store32 m a v) b = load32 m b"
  unfolding load32_def store32_def by auto

lemma load32_copy_bytes_out:
  "b + 4 \<le> dst \<or> dst + n \<le> b \<Longrightarrow> load32 (copy_bytes m dst src n) b = load32 m b"
  unfolding load32_def copy_bytes_def by auto

lemma copy_bytes_in:
  "dst \<le> a \<Longrightarrow> a < dst + n \<Longrightarrow> copy_bytes m dst src n a = m (src + (a - dst))"
  by (simp add: copy_bytes_def)

lemma load32_copy_bytes_in:
  assumes "dst \<le> b \<and> b + 4 \<le> dst + n"
  shows "load32 (copy_bytes m dst src n) b = load32 m (src + (b - dst))"
proof -
  have k: "src + (b + k - dst) = src + (b - dst) + k" for k
    using assms by arith
  have "copy_bytes m dst src n (b + k) = m (src + (b - dst) + k)" if "k < 4" for k
    using assms that copy_bytes_in [of dst "b + k" n m src] by (simp add: k)
  from this [of 0] this [of 1] this [of 2] this [of 3] show ?thesis
    unfolding load32_def by simp
qed

lemma load32_fill_bytes_out:
  "b + 4 \<le> p \<or> p + n \<le> b \<Longrightarrow> load32 (fill_bytes m p c n) b = load32 m b"
  unfolding load32_def fill_bytes_def by auto

lemma load32_fill_bytes_zero:
  "p \<le> b \<and> b + 4 \<le> p + n \<Longrightarrow> load32 (fill_bytes m p 0 n) b = 0"
  unfolding load32_def fill_bytes_def by auto

lemma load32_zero: "load32 (\<lambda>_. 0) a = 0"
  by (simp add: load32_def)

lemma first_fit_scan_numeral:
  "first_fit_scan (numeral k) asize ptr s =
     (if ptr \<noteq> NULL then
        bindE (GET_SIZE s ptr) (\<lambda>sz.
          if asize \<le> sz then Inr (Some ptr, s)
          else bindE (NEXT_FREE s ptr) (\<lambda>nxt.
            first_fit_scan (pred_numeral k) asize nxt (s\<lparr>prevPtr := ptr\<rparr>)))
      else Inr (None, s))"
  by (simp add: numeral_eq_Suc)

lemma find_prev_scan_numeral:
  "find_prev_scan (numeral k) p ptr s =
     (if ptr \<noteq> p then
        bindE (NEXT_FREE s ptr) (\<lambda>nxt. find_prev_scan (pred_numeral k) p nxt (s\<lparr>prevPtr := ptr\<rparr>))
      else Inr s)"
  by (simp add: numeral_eq_Suc)

lemma adjacent_free_scan_numeral:
  "adjacent_free_scan (numeral k) s p prev_free =
     bindE (GET_SIZE s p) (\<lambda>sz.
     bindE (GET_ALLOC s p) (\<lambda>alloc.
       if sz = 0 then Inr False
       else if prev_free \<and> alloc = 0 then Inr True
       else adjacent_free_scan (pred_numeral k) s (ptr_add p (unat sz)) (alloc = 0)))"
  by (simp add: numeral_eq_Suc)

text \<open>The rules that run the program on a concrete state, one store and one load at a time.\<close>

lemmas mm_eval =
  mm_init_def mem_init_def mem_sbrk_def store_ptr_def load_ptr_def bucket_def
  ptr_add_def ptr_sub_def ptr_add_int_def valid_def PUT_def GET_def PACK_def
  store64_def load64_def GET_SIZE_def GET_ALLOC_def FOOTER_def NEXT_FREE_def
  extend_heap_def getIndex_def first_fit_def relink_def find_prev_def coalesce_def
  free_def place_def required_size_def malloc_def realloc_def calloc_def memcpy_def
  memset_def adjacent_free_def
  first_fit_scan_numeral find_prev_scan_numeral adjacent_free_scan_numeral first_fit_up.simps
  load32_store32_same load32_store32_disj load32_copy_bytes_out load32_copy_bytes_in
  load32_fill_bytes_out load32_fill_bytes_zero load32_zero

section \<open>The claims\<close>

text \<open>
  C1. The claim: \<^verbatim>\<open>malloc(size)\<close> returns null exactly when \<^verbatim>\<open>size == 0\<close> or the heap
  growth failed. On the code a failed growth is not turned into null: \<^verbatim>\<open>extend_heap\<close>
  hands back the \<^verbatim>\<open>(void * )-1\<close> of \<^verbatim>\<open>mem_sbrk\<close> and \<^verbatim>\<open>malloc\<close> returns it as it is. Here the
  region has room for the 80 bytes of \<^verbatim>\<open>mm_init\<close> and nothing more; \<^verbatim>\<open>mm_init\<close> succeeds
  (returns 0) and \<^verbatim>\<open>malloc(24)\<close> returns \<open>2 ^ 64 - 1\<close>, whatever the memory holds.
\<close>

theorem malloc_growth_failure_not_null:
  "bindE (mm_init (mem_init m 4096 4176)) (\<lambda>(r, s0).
   bindE (malloc 10 24 s0) (\<lambda>(p, s1).
     Inr (r, p, p = NULL))) = Inr (0, 18446744073709551615, False)"
  by (simp add: mm_eval)

text \<open>
  C4. The claim: \<^verbatim>\<open>calloc\<close> multiplies without an overflow check, allocates, fills with
  zeros and returns the pointer, and returns null when the allocation fails. On the code
  \<^verbatim>\<open>calloc\<close> never looks at what \<^verbatim>\<open>malloc\<close> returned: when the growth fails, \<^verbatim>\<open>malloc\<close>
  returns \<^verbatim>\<open>(void * )-1\<close> (see C1) and \<^verbatim>\<open>memset\<close> writes there. In the same exhausted
  region as in C1, \<^verbatim>\<open>calloc(1, 8)\<close> ends in a fault, not in a null result.
\<close>

theorem calloc_growth_failure_faults:
  "bindE (mm_init (mem_init m 4096 4176)) (\<lambda>(r, s0). calloc 10 1 8 s0) = Inl SegFault"
  by (simp add: mm_eval)

text \<open>
  C9. From a freshly initialised heap (any memory contents; the region starts at 4096),
  \<^verbatim>\<open>malloc(24)\<close> grows the heap by a block of total size 32 (allocated, payload at 4176,
  break at 4208, bucket 0 still empty); \<^verbatim>\<open>free\<close> of it marks the block free and makes it
  the head of bucket 0; the next \<^verbatim>\<open>malloc(24)\<close> returns the same payload, the break has not
  moved, the block is allocated again and bucket 0 is empty.
\<close>

theorem alloc_free_alloc_round_trip:
  "bindE (mm_init (mem_init m 4096 65536)) (\<lambda>(r, s0).
   bindE (malloc 10 24 s0) (\<lambda>(p, s1).
   bindE (free 10 p s1) (\<lambda>s2.
   bindE (malloc 10 24 s2) (\<lambda>(q, s3).
     Inr ((p, GET_SIZE s1 (p - 4), GET_ALLOC s1 (p - 4), mem_brk s0, mem_brk s1, load_ptr s1 (bucket s1 0)),
          (GET_SIZE s2 (p - 4), GET_ALLOC s2 (p - 4), load_ptr s2 (bucket s2 0), getIndex 32),
          (q, mem_brk s3, GET_SIZE s3 (q - 4), GET_ALLOC s3 (q - 4), load_ptr s3 (bucket s3 0)))))))
   = Inr ((4176, Inr 32, Inr 1, 4176, 4208, Inr NULL),
          (Inr 32, Inr 0, Inr 4172, 0),
          (4176, 4208, Inr 32, Inr 1, Inr NULL))"
  by (simp add: mm_eval)

text \<open>
  C2. The claim: after every public operation no two neighbouring blocks of the arena are
  both free. \<^verbatim>\<open>coalesce\<close> does merge in all four cases when the boundary tags are intact
  (the lemma \<open>free_coalesces_with_left_neighbour\<close> below runs one), but a request whose
  required size is \<open>0\<close> modulo \<open>2 ^ 32\<close> breaks a tag. \<^verbatim>\<open>malloc(4294967288)\<close> computes the
  required size \<open>2 ^ 32\<close>, which \<^verbatim>\<open>extend_heap(int size)\<close> receives as 0: it grows the heap
  by nothing and writes its footer \<^verbatim>\<open>PACK(0, 1)\<close> at \<^verbatim>\<open>bp - 8\<close>, over the footer of the last
  block, which is free here. The next block is appended after it, and when that one is
  freed \<^verbatim>\<open>coalesce\<close> reads the broken footer as "allocated": the blocks at 4172 (size 32)
  and at 4204 (size 48) are both free, side by side, each in its bucket.
\<close>

theorem adjacent_free_blocks_after_truncated_request:
  "bindE (mm_init (mem_init m 4096 65536)) (\<lambda>(r, s0).
   bindE (malloc 10 24 s0) (\<lambda>(p, s1).
   bindE (free 10 p s1) (\<lambda>s2.
   bindE (malloc 10 4294967288 s2) (\<lambda>(q, s3).
   bindE (malloc 10 40 s3) (\<lambda>(r, s4).
   bindE (free 10 r s4) (\<lambda>s5.
   bindE (adjacent_free 10 s5) (\<lambda>found.
     Inr (found, (p, q, r),
          (GET_SIZE s5 4172, GET_ALLOC s5 4172, load_ptr s5 (bucket s5 0)),
          (GET_SIZE s5 4204, GET_ALLOC s5 4204, load_ptr s5 (bucket s5 1)),
          (GET s2 4200, GET_ALLOC s3 4200)))))))))
   = Inr (True, (4176, 4208, 4208),
          (Inr 32, Inr 0, Inr 4172),
          (Inr 48, Inr 0, Inr 4204),
          (Inr 32, Inr 1))"
  by (simp add: mm_eval)

text \<open>The same calls without the oversized request: the two blocks are merged into one.\<close>

lemma free_coalesces_with_left_neighbour:
  "bindE (mm_init (mem_init m 4096 65536)) (\<lambda>(r, s0).
   bindE (malloc 10 24 s0) (\<lambda>(p, s1).
   bindE (free 10 p s1) (\<lambda>s2.
   bindE (malloc 10 40 s2) (\<lambda>(r, s4).
   bindE (free 10 r s4) (\<lambda>s5.
   bindE (adjacent_free 10 s5) (\<lambda>found.
     Inr (found, GET_SIZE s5 4172, GET_ALLOC s5 4172, load_ptr s5 (bucket s5 2))))))))
   = Inr (False, Inr 80, Inr 0, Inr 4172)"
  by (simp add: mm_eval)

text \<open>
  C10. The claim: whenever \<^verbatim>\<open>coalesce\<close> unlinks a free neighbour, that block is in the list
  of its bucket, so the scan of \<^verbatim>\<open>find_prev\<close> ends at it and never reads through a null
  pointer. \<^verbatim>\<open>malloc(4294967288)\<close> on a fresh heap returns the break itself (the required
  size \<open>2 ^ 32\<close> reaches \<^verbatim>\<open>extend_heap\<close> as 0). \<^verbatim>\<open>free\<close> of that pointer takes the epilogue
  for the header of a block of size 0, marks it and the prologue free, and \<^verbatim>\<open>coalesce\<close>
  finds both neighbours "free" (the block itself and the prologue word). It unlinks the
  block (bucket 0 is empty again) and calls \<^verbatim>\<open>find_prev\<close> for the right neighbour, which
  is in no list: the scan starts at the null head of bucket 0 and reads \<^verbatim>\<open>NEXT_FREE(NULL)\<close>.
\<close>

theorem find_prev_reads_through_null:
  "bindE (mm_init (mem_init m 4096 65536)) (\<lambda>(r, s0).
   bindE (malloc 10 4294967288 s0) (\<lambda>(q, s1).
     Inr (q, mem_brk s0, mem_brk s1, free 10 q s1)))
   = Inr (4176, 4176, 4176, Inl SegFault)"
  by (simp add: mm_eval)

text \<open>
  C8. The claim: every successful allocation returns a multiple of 8. A request whose size
  plus 8 wraps around \<open>2 ^ 64\<close> has the required size 0; \<^verbatim>\<open>first_fit\<close> then accepts any free
  block, and \<^verbatim>\<open>place\<close> "splits" it into an allocated head of size 0 and a remainder that is
  the whole block, which it frees again: the caller receives the payload of a block that
  is still in its free list. \<^verbatim>\<open>realloc(a, 18446744073709551608)\<close> copies the old payload
  there, over the list link, so the link now holds what the caller's data were (here the
  uninitialised contents of the first block: the address 4184, and the size 32 at 4184).
  Three allocations later the list hands out the block "at 4184": \<^verbatim>\<open>malloc(24)\<close> returns
  4188, which is 4 modulo 8.
\<close>

theorem misaligned_allocation_after_wrapped_request:
  "bindE (mm_init (mem_init (store32 (store64 (\<lambda>_. 0) 4176 4184) 4184 32) 4096 65536)) (\<lambda>(r, s0).
   bindE (malloc 10 24 s0) (\<lambda>(a, s1).
   bindE (malloc 10 24 s1) (\<lambda>(b, s2).
   bindE (malloc 10 24 s2) (\<lambda>(p, s3).
   bindE (free 10 p s3) (\<lambda>s4.
   bindE (realloc 10 a 18446744073709551608 s4) (\<lambda>(q, s5).
   bindE (malloc 10 24 s5) (\<lambda>(r1, s6).
   bindE (malloc 10 24 s6) (\<lambda>(r2, s7).
   bindE (malloc 10 24 s7) (\<lambda>(r3, s8).
     Inr ((a, b, p), q, (r1, r2, r3), r3 mod 8))))))))))
   = Inr ((4176, 4208, 4240), 4240, (4176, 4240, 4188), 4)"
  by (simp add: mm_eval)

text \<open>
  C3, as stated, fails: \<^verbatim>\<open>realloc\<close> does not copy the lesser of the usable size and the
  new size, it copies the lesser of the size in the old header (the usable size plus the
  8 bytes of header and footer) and the new size. The block of \<^verbatim>\<open>malloc(24)\<close> has the size
  32 and 24 usable bytes; \<^verbatim>\<open>realloc\<close> of it to 100 bytes copies 32 bytes: the word at
  offset 24 of the new block, 0 before the call, is the old block's footer after it, and
  the word at offset 28 is the header that followed the old block.
\<close>

theorem realloc_copies_header_size_counterexample:
  "bindE (mm_init (mem_init (\<lambda>_. 0) 4096 65536)) (\<lambda>(r, s0).
   bindE (malloc 10 24 s0) (\<lambda>(p, s1).
   bindE (realloc 10 p 100 s1) (\<lambda>(q, s2).
     Inr ((p, GET_SIZE s1 (p - 4)), q,
          (GET s1 (q + 24), GET s2 (q + 24), GET s1 (p + 24)),
          (GET s1 (q + 28), GET s2 (q + 28))))))
   = Inr ((4176, Inr 32), 4208, (Inr 0, Inr 33, Inr 33), (Inr 0, Inr 113))"
  by (simp add: mm_eval)

text \<open>
  C5, as stated, fails for a request whose required size does not fit the \<^verbatim>\<open>int\<close> of
  \<^verbatim>\<open>extend_heap\<close>: \<^verbatim>\<open>malloc(4294967296)\<close> requires \<open>2 ^ 32 + 8\<close> bytes, finds no fit, and
  grows the heap by 8 bytes (a block whose header says size 8).
\<close>

theorem malloc_growth_truncated_counterexample:
  "bindE (mm_init (mem_init (\<lambda>_. 0) 4096 65536)) (\<lambda>(r, s0).
   bindE (malloc 10 4294967296 s0) (\<lambda>(q, s1).
     Inr (unat (required_size 4294967296), q, mem_brk s0, mem_brk s1,
          GET_SIZE s1 (q - 4), GET_ALLOC s1 (q - 4))))
   = Inr (4294967304, 4176, 4176, 4184, Inr 8, Inr 1)"
  by (simp add: mm_eval)

text \<open>
  C6, as stated, fails in its last part: \<^verbatim>\<open>first_fit\<close> also returns null when the natural
  bucket holds blocks, none of them large enough, and the higher buckets are empty. After
  \<^verbatim>\<open>malloc(8)\<close> and \<^verbatim>\<open>free\<close>, bucket 0 holds the block of size 16 at 4172; the search for
  32 bytes in bucket 0 returns null.
\<close>

theorem first_fit_null_with_nonempty_bucket_counterexample:
  "bindE (mm_init (mem_init (\<lambda>_. 0) 4096 65536)) (\<lambda>(r, s0).
   bindE (malloc 10 8 s0) (\<lambda>(p, s1).
   bindE (free 10 p s1) (\<lambda>s2.
   bindE (first_fit 10 32 0 s2) (\<lambda>(bp, s3).
     Inr (bp, load_ptr s2 (bucket s2 0), GET_SIZE s2 4172)))))
   = Inr (NULL, Inr 4172, Inr 16)"
  by (simp add: mm_eval)

end
